theory Spec2Isabelle
  imports Complex_Main
begin

section \<open>Python library functions used by \<open>command_line/stills_process.py\<close>\<close>

text \<open>
  The script calls a handful of functions of the Python 2 standard library on strings and
  lists. They are written out here so that the program's own functions can be evaluated.
  Strings are byte strings, as in Python 2.
\<close>

text \<open>Exceptions. \<open>Sorry\<close> and \<open>Abort\<close> are the two classes the script imports from
  \<open>libtbx.utils\<close> and raises itself; both derive from \<open>Exception\<close>. The others are the
  built-in exceptions the script's own statements can raise, and \<open>Failure\<close> stands for any
  other instance of \<open>Exception\<close> raised inside an external library. The last two are
  raised by an interrupt from the keyboard and by \<open>sys.exit\<close>.\<close>

datatype exn =
    Sorry string
  | Abort string
  | TypeError string
  | AssertionError
  | ZeroDivisionError
  | Failure string
  | KeyboardInterrupt
  | SystemExit string

text \<open>\<open>str(e)\<close>: the message of an exception.\<close>

fun str_exn :: "exn \<Rightarrow> string" where
  "str_exn (Sorry m) = m"
| "str_exn (Abort m) = m"
| "str_exn (TypeError m) = m"
| "str_exn AssertionError = []"
| "str_exn ZeroDivisionError = ''integer division or modulo by zero''"
| "str_exn (Failure m) = m"
| "str_exn KeyboardInterrupt = []"
| "str_exn (SystemExit m) = m"

text \<open>\<open>except Exception\<close> catches the instances of \<open>Exception\<close>. \<open>KeyboardInterrupt\<close> and
  \<open>SystemExit\<close> derive from \<open>BaseException\<close> only and pass through such a handler.\<close>

fun is_Exception :: "exn \<Rightarrow> bool" where
  "is_Exception KeyboardInterrupt = False"
| "is_Exception (SystemExit m) = False"
| "is_Exception e = True"

text \<open>\<open>os.path.basename(p)\<close>: everything after the last slash.\<close>

definition basename :: "string \<Rightarrow> string" where
  "basename p = rev (takeWhile (\<lambda>c. c \<noteq> CHR ''/'') (rev p))"

text \<open>\<open>os.path.splitext(p)\<close>: split at the last dot of the last path component, unless
  that component has only dots before it (a leading dot does not start an extension).\<close>

definition splitext :: "string \<Rightarrow> string \<times> string" where
  "splitext p =
     (let ext_rev = takeWhile (\<lambda>c. c \<noteq> CHR ''.'' \<and> c \<noteq> CHR ''/'') (rev p);
          rest = drop (length ext_rev) (rev p)
      in case rest of
           [] \<Rightarrow> (p, [])
         | c # root_rev \<Rightarrow>
             if c = CHR ''.'' \<and>
                (\<exists>d \<in> set (takeWhile (\<lambda>c. c \<noteq> CHR ''/'') root_rev). d \<noteq> CHR ''.'')
             then (rev root_rev, CHR ''.'' # rev ext_rev)
             else (p, []))"

text \<open>\<open>os.path.join(a, b)\<close> for two components.\<close>

definition path_join :: "string \<Rightarrow> string \<Rightarrow> string" where
  "path_join a b =
     (if b \<noteq> [] \<and> hd b = CHR ''/'' then b
      else if a = [] \<or> last a = CHR ''/'' then a @ b
      else a @ ''/'' @ b)"

text \<open>\<open>sub in s\<close> on strings: \<open>sub\<close> occurs in \<open>s\<close> as a contiguous run.\<close>

fun py_in :: "string \<Rightarrow> string \<Rightarrow> bool" where
  "py_in sub [] = (sub = [])"
| "py_in sub (c # cs) = (take (length sub) (c # cs) = sub \<or> py_in sub cs)"

text \<open>Decimal digits of a natural number, and the conversions \<open>%d\<close> and \<open>%05d\<close> of a
  number that is not negative: \<open>%05d\<close> pads with zeros to a width of at least five.\<close>

function str_nat :: "nat \<Rightarrow> string" where
  "str_nat n = (if n < 10 then [''0123456789'' ! n]
                else str_nat (n div 10) @ [''0123456789'' ! (n mod 10)])"
  by pat_completeness auto
termination
  by (relation "measure id") auto

declare str_nat.simps [simp del]

definition fmt_05d :: "nat \<Rightarrow> string" where
  "fmt_05d n = replicate (5 - length (str_nat n)) CHR ''0'' @ str_nat n"

text \<open>The arguments of the \<open>%\<close> operator where the script applies it to a filename
  template: strings and numbers that are not negative.\<close>

datatype fmt_arg = StrArg string | IntArg nat

section \<open>Unit loader: tags (\<open>Script.run\<close>, lines 229--260)\<close>

text \<open>The body of both tagging loops: a basename that occurs more than once in the batch
  gets \<open>"%s_%05d" % (basename, i)\<close>, any other is the tag itself.\<close>

definition make_tag :: "string list \<Rightarrow> nat \<Rightarrow> string \<Rightarrow> string" where
  "make_tag basenames i b =
     (if count_list basenames b > 1 then b @ ''_'' @ fmt_05d i
      else b)"

text \<open>Deferred loading (lines 254--260): one unit per path, \<open>i\<close> is the position of the
  path in \<open>all_paths\<close>.\<close>

definition tags_deferred :: "string list \<Rightarrow> string list" where
  "tags_deferred all_paths =
     (let basenames = map (\<lambda>filename. fst (splitext (basename filename))) all_paths
      in map (\<lambda>(i, b). make_tag basenames i b) (enumerate 0 basenames))"

text \<open>Pre-import (lines 229--245). A datablock is given by its image sets and an image set
  by the paths of its frames. Every frame becomes a unit; \<open>i\<close> is the index of the frame
  inside its own image set.\<close>

type_synonym imageset = "string list"

definition tags_pre_import :: "imageset list list \<Rightarrow> string list" where
  "tags_pre_import datablocks =
     (let imagesets = concat datablocks;
          indices = concat (map (\<lambda>paths. [0..<length paths]) imagesets);
          basenames = concat (map (\<lambda>paths.
              map (\<lambda>i. fst (splitext (basename (paths ! i)))) [0..<length paths]) imagesets)
      in map (\<lambda>(i, b). make_tag basenames i b) (zip indices basenames))"

section \<open>Fan-out: the rank loop (\<open>Script.run\<close>, lines 287--295)\<close>

text \<open>\<open>do_work\<close> transforms a state and may raise, in which case the loop is left.
  \<open>(i+rank)%size\<close> raises when \<open>size\<close> (here \<open>sz\<close>) is zero.\<close>

fun mpi_loop :: "nat \<Rightarrow> nat \<Rightarrow> ('i \<Rightarrow> 's \<Rightarrow> exn option \<times> 's) \<Rightarrow> (nat \<times> 'i) list \<Rightarrow> 's
    \<Rightarrow> exn option \<times> 's" where
  "mpi_loop rank sz do_work [] s = (None, s)"
| "mpi_loop rank sz do_work ((i, item) # rest) s =
     (if sz = 0 then (Some ZeroDivisionError, s)
      else if (i + rank) mod sz = 0 then
        (case do_work item s of
           (Some e, s') \<Rightarrow> (Some e, s')
         | (None, s') \<Rightarrow> mpi_loop rank sz do_work rest s')
      else mpi_loop rank sz do_work rest s)"

section \<open>Reflection tables, parameters and effects\<close>

text \<open>
  A reflection table (\<open>flex.reflection_table\<close>) is a set of named columns of one length.
  It is kept here as the list of column names that are present and one record per row; a
  field of a row means something only when its column is present. Intensities, variances
  and centroids are floating-point numbers in the program; they are exact reals here, so
  rounding and NaN are outside this development, which only compares them with zero and
  multiplies them by the gain.
\<close>

datatype flag = Indexed | IntegratedSum | IntegratedPrf | ForegroundIncludesBadPixels

record reflection =
  flags :: "flag list"
  miller_index :: "int \<times> int \<times> int"
  refl_id :: int
  xyzobs_px_value :: "real \<times> real \<times> real"
  bbox :: "int \<times> int \<times> int \<times> int \<times> int \<times> int"
  intensity_prf_value :: real
  intensity_prf_variance :: real
  intensity_sum_value :: real
  intensity_sum_variance :: real
  background_sum_value :: real
  background_sum_variance :: real

record reflection_table =
  cols :: "string list"
  rows :: "reflection list"

text \<open>\<open>name in table\<close>, \<open>table.select(mask)\<close> with the mask given as a predicate on rows,
  and \<open>table.get_flags(wanted)\<close>, which asks for every flag of \<open>wanted\<close>.\<close>

definition has_col :: "reflection_table \<Rightarrow> string \<Rightarrow> bool" where
  "has_col t name = (name \<in> set (cols t))"

definition select :: "reflection_table \<Rightarrow> (reflection \<Rightarrow> bool) \<Rightarrow> reflection_table" where
  "select t keep = t\<lparr>rows := filter keep (rows t)\<rparr>"

definition get_flags :: "flag list \<Rightarrow> reflection \<Rightarrow> bool" where
  "get_flags wanted r = list_all (\<lambda>f. f \<in> set (flags r)) wanted"

text \<open>The parameters the script itself reads or writes. \<open>outputs\<close> is the scope
  \<open>params.output\<close>, \<open>scan_varying\<close> is
  \<open>refinement.parameterisation.scan_varying\<close> and \<open>detector_gain\<close> is
  \<open>integration.summation.detector_gain\<close>. A filename parameter may be \<open>None\<close>;
  \<open>output_dir\<close> is taken to be a string (its default is \<open>"."\<close>).\<close>

record output_params =
  output_dir :: string
  datablock_filename :: "string option"
  strong_filename :: "string option"
  indexed_filename :: "string option"
  refined_experiments_filename :: "string option"
  integrated_filename :: "string option"
  integration_pickle :: "string option"

record params =
  outputs :: output_params
  scan_varying :: bool
  detector_gain :: real

text \<open>\<open>if filename:\<close> holds for a string that is neither \<open>None\<close> nor empty.\<close>

fun truthy :: "string option \<Rightarrow> bool" where
  "truthy None = False"
| "truthy (Some s) = (s \<noteq> [])"

text \<open>What a unit's processing leaves behind: lines printed on standard output and files
  written. Datablocks, experiments and pickled frames are opaque (\<open>'db\<close>, \<open>'e\<close>, \<open>'f\<close>).
  Calls of the logging module are not recorded.\<close>

datatype ('db, 'e, 'f) event =
    Print string
  | DataBlockDump string 'db
  | SaveReflections string reflection_table
  | ExperimentListDump string "'e list"
  | EasyPickleDump string 'f

text \<open>The external collaborators: the stage algorithms of DIALS, the importer and the file
  system. Each is a function of its arguments that returns a result or the exception it
  raises. \<open>predict_and_match\<close> stands for lines 472--478, \<open>integrator_integrate\<close> for lines
  480--483, \<open>construct_frame\<close> for lines 573--574, \<open>source_name\<close> for lines 577--582 and
  \<open>rmsd_log\<close> for the diagnostics of lines 522--538, which only write to the log.
  \<open>fs_write\<close> tells whether writing a file of that name raises. \<open>format_op\<close> is Python's
  \<open>%\<close> operator on a filename template, and \<open>missing_column\<close> is the exception a reflection
  table raises when a column that it does not have is read by name.\<close>

record ('db, 'e, 'f) collaborators =
  do_import :: "string \<Rightarrow> exn + 'db"
  imageset_lengths :: "'db \<Rightarrow> nat list"
  update_geometry :: "'db \<Rightarrow> exn + 'db"
  from_observations :: "'db \<Rightarrow> params \<Rightarrow> exn + reflection_table"
  indexer_base :: "reflection_table \<Rightarrow> 'db \<Rightarrow> params \<Rightarrow> exn + ('e list \<times> reflection_table)"
  profile_model_create :: "params \<Rightarrow> 'e list \<Rightarrow> reflection_table option \<Rightarrow> exn + 'e list"
  predict_and_match :: "params \<Rightarrow> 'e list \<Rightarrow> reflection_table option \<Rightarrow> exn + reflection_table"
  integrator_integrate :: "params \<Rightarrow> 'e list \<Rightarrow> reflection_table \<Rightarrow> exn + reflection_table"
  construct_frame :: "reflection_table \<Rightarrow> 'e \<Rightarrow> exn + 'f"
  source_name :: "'e list \<Rightarrow> 'e \<Rightarrow> string"
  rmsd_log :: "reflection_table option \<Rightarrow> reflection_table \<Rightarrow> 'e list \<Rightarrow> exn option"
  fs_write :: "string \<Rightarrow> exn option"
  format_op :: "string \<Rightarrow> fmt_arg list \<Rightarrow> exn + string"
  missing_column :: "string \<Rightarrow> exn"

text \<open>A \<open>Processor\<close> object (\<open>self.params\<close>, \<open>self.tag\<close>) together with the effects so far.\<close>

record ('db, 'e, 'f) processor =
  self_params :: params
  self_tag :: "string option"
  effects :: "('db, 'e, 'f) event list"

definition emit :: "('db, 'e, 'f) event \<Rightarrow> ('db, 'e, 'f) processor \<Rightarrow> ('db, 'e, 'f) processor" where
  "emit ev self = self\<lparr>effects := effects self @ [ev]\<rparr>"

text \<open>\<open>print a, b, c\<close> writes the arguments separated by single spaces.\<close>

fun print_line :: "string list \<Rightarrow> string" where
  "print_line [] = []"
| "print_line [a] = a"
| "print_line (a # b # rest) = a @ '' '' @ print_line (b # rest)"

text \<open>Writing a file: the write may raise; otherwise the file is there.\<close>

definition write_file :: "('db, 'e, 'f) collaborators \<Rightarrow> string \<Rightarrow> ('db, 'e, 'f) event
    \<Rightarrow> ('db, 'e, 'f) processor \<Rightarrow> exn option \<times> ('db, 'e, 'f) processor" where
  "write_file c filename ev self =
     (case fs_write c filename of
        Some e \<Rightarrow> (Some e, self)
      | None \<Rightarrow> (None, emit ev self))"

text \<open>\<open>Processor.save_reflections\<close> (lines 635--641).\<close>

definition save_reflections :: "('db, 'e, 'f) collaborators \<Rightarrow> reflection_table \<Rightarrow> string
    \<Rightarrow> ('db, 'e, 'f) processor \<Rightarrow> exn option \<times> ('db, 'e, 'f) processor" where
  "save_reflections c reflections filename self =
     write_file c filename (SaveReflections filename reflections) self"

text \<open>An optional output: \<open>if filename: write(filename)\<close>.\<close>

definition write_if :: "('db, 'e, 'f) collaborators \<Rightarrow> string option
    \<Rightarrow> (string \<Rightarrow> ('db, 'e, 'f) event)
    \<Rightarrow> ('db, 'e, 'f) processor \<Rightarrow> exn option \<times> ('db, 'e, 'f) processor" where
  "write_if c filename ev self =
     (case filename of
        None \<Rightarrow> (None, self)
      | Some s \<Rightarrow> if s = [] then (None, self) else write_file c s (ev s) self)"

section \<open>The stages of \<open>Processor\<close>\<close>

subsection \<open>\<open>find_spots\<close> (lines 357--384)\<close>

text \<open>Lines 369--375: every centroid gets \<open>z = 0\<close> and every bounding box the \<open>z\<close> range
  \<open>0, 1\<close>. The columns are read by name, which raises when one is missing.\<close>

definition reset_z :: "('db, 'e, 'f) collaborators \<Rightarrow> reflection_table
    \<Rightarrow> exn + reflection_table" where
  "reset_z c observed =
     (if \<not> has_col observed ''xyzobs.px.value'' then Inl (missing_column c ''xyzobs.px.value'')
      else if \<not> has_col observed ''bbox'' then Inl (missing_column c ''bbox'')
      else Inr (observed\<lparr>rows := map (\<lambda>r. r\<lparr>
          xyzobs_px_value := (case xyzobs_px_value r of (x, y, z) \<Rightarrow> (x, y, 0)),
          bbox := (case bbox r of (x0, x1, y0, y1, z0, z1) \<Rightarrow> (x0, x1, y0, y1, 0, 1))\<rparr>)
        (rows observed)\<rparr>))"

definition find_spots :: "('db, 'e, 'f) collaborators \<Rightarrow> 'db \<Rightarrow> ('db, 'e, 'f) processor
    \<Rightarrow> (exn + reflection_table) \<times> ('db, 'e, 'f) processor" where
  "find_spots c datablock self =
     (case from_observations c datablock (self_params self) of
        Inl e \<Rightarrow> (Inl e, self)
      | Inr found \<Rightarrow>
          (case reset_z c found of
             Inl e \<Rightarrow> (Inl e, self)
           | Inr observed \<Rightarrow>
               (case write_if c (strong_filename (outputs (self_params self)))
                       (\<lambda>s. SaveReflections s observed) self of
                  (Some e, self') \<Rightarrow> (Inl e, self')
                | (None, self') \<Rightarrow> (Inr observed, self'))))"

subsection \<open>\<open>index\<close> (lines 386--414)\<close>

text \<open>The indexer is given a copy of the parameters with \<open>scan_varying\<close> switched off;
  \<open>self.params\<close> itself is not assigned to.\<close>

definition index :: "('db, 'e, 'f) collaborators \<Rightarrow> 'db \<Rightarrow> reflection_table
    \<Rightarrow> ('db, 'e, 'f) processor
    \<Rightarrow> (exn + ('e list \<times> reflection_table)) \<times> ('db, 'e, 'f) processor" where
  "index c datablock reflections self =
     (let params' = (self_params self)\<lparr>scan_varying := False\<rparr>
      in case indexer_base c reflections datablock params' of
           Inl e \<Rightarrow> (Inl e, self)
         | Inr (experiments, indexed) \<Rightarrow>
             (case write_if c (indexed_filename (outputs (self_params self)))
                     (\<lambda>s. SaveReflections s indexed) self of
                (Some e, self') \<Rightarrow> (Inl e, self')
              | (None, self') \<Rightarrow> (Inr (experiments, indexed), self')))"

subsection \<open>\<open>refine\<close> (lines 416--442)\<close>

definition refine :: "('db, 'e, 'f) collaborators \<Rightarrow> 'e list \<Rightarrow> reflection_table
    \<Rightarrow> ('db, 'e, 'f) processor \<Rightarrow> (exn + 'e list) \<times> ('db, 'e, 'f) processor" where
  "refine c experiments centroids self =
     (let self1 = emit (Print
            ''Skipping refinement because the crystal orientation is refined during indexing'')
            self
      in case write_if c (refined_experiments_filename (outputs (self_params self1)))
                (\<lambda>s. ExperimentListDump s experiments) self1 of
           (Some e, self') \<Rightarrow> (Inl e, self')
         | (None, self') \<Rightarrow> (Inr experiments, self'))"

subsection \<open>\<open>process_reference\<close> (lines 598--633)\<close>

text \<open>The two messages of \<open>Sorry\<close>, as the triple-quoted strings of the source give them,
  line breaks and indentation included.\<close>

definition msg_no_indexed :: "nat \<Rightarrow> string" where
  "msg_no_indexed n =
     [CHR 0x0A] @ ''        Invalid input for reference reflections.'' @ [CHR 0x0A]
     @ ''        Expected > '' @ str_nat 0 @ '' indexed spots, got '' @ str_nat n
     @ [CHR 0x0A] @ ''      ''"

definition msg_invalid_id :: "nat \<Rightarrow> string" where
  "msg_invalid_id n =
     [CHR 0x0A] @ ''        Invalid input for reference reflections.'' @ [CHR 0x0A]
     @ ''        '' @ str_nat n @ '' reference spots have an invalid experiment id''
     @ [CHR 0x0A] @ ''      ''"

text \<open>\<open>reference.del_selected(mask)\<close> keeps the rows outside the mask. The result is the
  pair \<open>(reference, rubbish)\<close>.\<close>

definition process_reference :: "reflection_table option
    \<Rightarrow> exn + (reflection_table option \<times> reflection_table option)" where
  "process_reference reference_opt =
     (case reference_opt of
        None \<Rightarrow> Inr (None, None)
      | Some reference \<Rightarrow>
          if \<not> has_col reference ''miller_index'' then Inl AssertionError
          else if \<not> has_col reference ''id'' then Inl AssertionError
          else
            let indexed_mask = get_flags [Indexed];
                rubbish = select reference (\<lambda>r. \<not> indexed_mask r);
                reference1 = (if length (filter (\<lambda>r. \<not> indexed_mask r) (rows reference)) > 0
                              then select reference indexed_mask else reference)
            in if length (rows reference1) = 0
               then Inl (Sorry (msg_no_indexed (length (rows reference1))))
               else
                 let mask0 = (\<lambda>r. miller_index r = (0, 0, 0));
                     n0 = length (filter mask0 (rows reference1));
                     rubbish1 = (if n0 > 0
                                 then rubbish\<lparr>rows := rows rubbish @ filter mask0 (rows reference1)\<rparr>
                                 else rubbish);
                     reference2 = (if n0 > 0 then select reference1 (\<lambda>r. \<not> mask0 r)
                                   else reference1);
                     bad = length (filter (\<lambda>r. refl_id r < 0) (rows reference2))
                 in if bad > 0 then Inl (Sorry (msg_invalid_id bad))
                    else Inr (Some reference2, Some rubbish1))"

subsection \<open>\<open>integrate\<close> (lines 444--542)\<close>

text \<open>Lines 485--493: keep the reflections that were integrated, by profile fitting and
  summation when the table has a profile-fitted variance, by summation otherwise.\<close>

definition integrated_selection :: "reflection_table \<Rightarrow> reflection_table" where
  "integrated_selection integrated =
     (if has_col integrated ''intensity.prf.variance''
      then select integrated (get_flags [IntegratedSum, IntegratedPrf])
      else select integrated (get_flags [IntegratedSum]))"

definition scale_sum_variance :: "real \<Rightarrow> reflection_table \<Rightarrow> reflection_table" where
  "scale_sum_variance gain t =
     t\<lparr>rows := map (\<lambda>r. r\<lparr>intensity_sum_variance := intensity_sum_variance r * gain\<rparr>)
                   (rows t)\<rparr>"

definition scale_background_variance :: "real \<Rightarrow> reflection_table \<Rightarrow> reflection_table" where
  "scale_background_variance gain t =
     t\<lparr>rows := map (\<lambda>r. r\<lparr>background_sum_variance := background_sum_variance r * gain\<rparr>)
                   (rows t)\<rparr>"

text \<open>Lines 499--515, ``verify sigmas are sensible'', as a function from the filtered table
  to the checked table and the lines it prints. \<open>(column <= 0).count(True)\<close> is the number
  of rows whose value is not positive.\<close>

definition verify_sigmas :: "('db, 'e, 'f) collaborators \<Rightarrow> real \<Rightarrow> reflection_table
    \<Rightarrow> exn + (reflection_table \<times> string list)" where
  "verify_sigmas c gain integrated =
     (if has_col integrated ''intensity.prf.value''
         \<and> \<not> has_col integrated ''intensity.prf.variance''
      then Inl (missing_column c ''intensity.prf.variance'')
      else if has_col integrated ''intensity.prf.value''
         \<and> length (filter (\<lambda>r. intensity_prf_variance r \<le> 0) (rows integrated)) > 0
      then Inl (Sorry ''Found negative variances'')
      else if has_col integrated ''intensity.sum.value''
         \<and> \<not> has_col integrated ''intensity.sum.variance''
      then Inl (missing_column c ''intensity.sum.variance'')
      else if has_col integrated ''intensity.sum.value''
         \<and> length (filter (\<lambda>r. intensity_sum_variance r \<le> 0) (rows integrated)) > 0
      then Inl (Sorry ''Found negative variances'')
      else
        let integrated1 = (if has_col integrated ''intensity.sum.value''
                           then scale_sum_variance gain integrated else integrated)
        in if \<not> has_col integrated1 ''background.sum.value'' then Inr (integrated1, [])
           else if \<not> has_col integrated1 ''background.sum.variance''
           then Inl (missing_column c ''background.sum.variance'')
           else if length (filter (\<lambda>r. background_sum_variance r < 0) (rows integrated1)) > 0
           then Inl (Sorry ''Found negative variances'')
           else
             let zeros = length (filter (\<lambda>r. background_sum_variance r = 0) (rows integrated1))
             in if zeros > 0
                then Inr (scale_background_variance gain
                            (select integrated1 (\<lambda>r. background_sum_variance r > 0)),
                          [''Filtering '' @ str_nat zeros
                             @ '' reflections with zero background variance''])
                else Inr (scale_background_variance gain integrated1, []))"

text \<open>\<open>write_integration_pickles\<close> (lines 544--596), without a callback: one pickle per
  experiment, named from the experiment number and the tag.\<close>

fun pickle_loop :: "('db, 'e, 'f) collaborators \<Rightarrow> string \<Rightarrow> reflection_table \<Rightarrow> 'e list
    \<Rightarrow> nat list \<Rightarrow> ('db, 'e, 'f) processor \<Rightarrow> exn option \<times> ('db, 'e, 'f) processor" where
  "pickle_loop c template integrated experiments [] self = (None, self)"
| "pickle_loop c template integrated experiments (e_number # rest) self =
     (let experiment = experiments ! e_number
      in if \<not> has_col integrated ''id'' then (Some (missing_column c ''id''), self)
         else
           let reflections = select integrated (\<lambda>r. refl_id r = int e_number)
           in case construct_frame c reflections experiment of
                Inl e \<Rightarrow> (Some e, self)
              | Inr frame \<Rightarrow>
                  let event_timestamp =
                        (case self_tag self of
                           Some t \<Rightarrow> t
                         | None \<Rightarrow>
                             let ts = basename (source_name c experiments experiment)
                             in if take 5 ts = ''shot-'' then fst (splitext ts) else ts)
                  in case format_op c template [IntArg e_number, StrArg event_timestamp] of
                       Inl e \<Rightarrow> (Some e, self)
                     | Inr name \<Rightarrow>
                         let outfile = path_join (output_dir (outputs (self_params self))) name
                         in case write_file c outfile (EasyPickleDump outfile frame) self of
                              (Some e, self') \<Rightarrow> (Some e, self')
                            | (None, self') \<Rightarrow>
                                pickle_loop c template integrated experiments rest self')"

definition write_integration_pickles :: "('db, 'e, 'f) collaborators \<Rightarrow> reflection_table
    \<Rightarrow> 'e list \<Rightarrow> ('db, 'e, 'f) processor \<Rightarrow> exn option \<times> ('db, 'e, 'f) processor" where
  "write_integration_pickles c integrated experiments self =
     (case integration_pickle (outputs (self_params self)) of
        None \<Rightarrow> (None, self)
      | Some template \<Rightarrow>
          pickle_loop c template integrated experiments [0..<length experiments] self)"

definition integrate :: "('db, 'e, 'f) collaborators \<Rightarrow> 'e list \<Rightarrow> reflection_table
    \<Rightarrow> ('db, 'e, 'f) processor \<Rightarrow> (exn + reflection_table) \<times> ('db, 'e, 'f) processor" where
  "integrate c experiments indexed0 self =
     (case process_reference (Some indexed0) of
        Inl e \<Rightarrow> (Inl e, self)
      | Inr (indexed, junk) \<Rightarrow>
      (case profile_model_create c (self_params self) experiments indexed of
        Inl e \<Rightarrow> (Inl e, self)
      | Inr experiments1 \<Rightarrow>
      (case predict_and_match c (self_params self) experiments1 indexed of
        Inl e \<Rightarrow> (Inl e, self)
      | Inr predicted \<Rightarrow>
      (case integrator_integrate c (self_params self) experiments1 predicted of
        Inl e \<Rightarrow> (Inl e, self)
      | Inr raw \<Rightarrow>
          let selected = integrated_selection raw;
              len_all = length (rows selected);
              good = select selected (\<lambda>r. \<not> get_flags [ForegroundIncludesBadPixels] r);
              self1 = emit (Print (''Filtering '' @ str_nat (len_all - length (rows good))
                        @ '' reflections with at least one bad foreground pixel out of ''
                        @ str_nat len_all)) self
          in (case verify_sigmas c (detector_gain (self_params self1)) good of
                Inl e \<Rightarrow> (Inl e, self1)
              | Inr (integrated, printed) \<Rightarrow>
                  let self2 = foldl (\<lambda>s l. emit (Print l) s) self1 printed
                  in (case write_if c (integrated_filename (outputs (self_params self2)))
                             (\<lambda>s. SaveReflections s integrated) self2 of
                        (Some e, self3) \<Rightarrow> (Inl e, self3)
                      | (None, self3) \<Rightarrow>
                      (case write_integration_pickles c integrated experiments1 self3 of
                        (Some e, self4) \<Rightarrow> (Inl e, self4)
                      | (None, self4) \<Rightarrow>
                      (case rmsd_log c indexed integrated experiments1 of
                        Some e \<Rightarrow> (Inl e, self4)
                      | None \<Rightarrow> (Inr integrated, self4)))))))))"

section \<open>\<open>Processor.process_datablock\<close> (lines 313--355)\<close>

text \<open>Lines 317--327 rewrite the filename templates of \<open>self.params.output\<close> in place:
  \<open>os.path.join(output_dir, template % ("idx-" + s))\<close>.\<close>

definition resolve_template :: "('db, 'e, 'f) collaborators \<Rightarrow> string \<Rightarrow> string \<Rightarrow> string
    \<Rightarrow> exn + string" where
  "resolve_template c dir template s =
     (case format_op c template [StrArg (''idx-'' @ s)] of
        Inl e \<Rightarrow> Inl e
      | Inr name \<Rightarrow> Inr (path_join dir name))"

text \<open>Lines 318--323 test \<open>filename is not None and "%s" in filename\<close>.\<close>

definition set_path_guarded :: "('db, 'e, 'f) collaborators \<Rightarrow> string \<Rightarrow> string
    \<Rightarrow> string option \<Rightarrow> exn + string option" where
  "set_path_guarded c dir s filename =
     (case filename of
        None \<Rightarrow> Inr None
      | Some template \<Rightarrow>
          if py_in ''%s'' template
          then (case resolve_template c dir template s of
                  Inl e \<Rightarrow> Inl e
                | Inr p \<Rightarrow> Inr (Some p))
          else Inr (Some template))"

text \<open>Lines 324--327 test \<open>"%s" in filename\<close> alone; on \<open>None\<close> the operator \<open>in\<close> raises
  \<open>TypeError\<close>.\<close>

definition set_path_unguarded :: "('db, 'e, 'f) collaborators \<Rightarrow> string \<Rightarrow> string
    \<Rightarrow> string option \<Rightarrow> exn + string option" where
  "set_path_unguarded c dir s filename =
     (case filename of
        None \<Rightarrow> Inl (TypeError (''argument of type '' @ [CHR 0x27] @ ''NoneType''
                                 @ [CHR 0x27] @ '' is not iterable''))
      | Some template \<Rightarrow>
          if py_in ''%s'' template
          then (case resolve_template c dir template s of
                  Inl e \<Rightarrow> Inl e
                | Inr p \<Rightarrow> Inr (Some p))
          else Inr (Some template))"

text \<open>The five assignments in order; an exception leaves the earlier ones done.\<close>

definition set_output_paths :: "('db, 'e, 'f) collaborators \<Rightarrow> string \<Rightarrow> output_params
    \<Rightarrow> exn option \<times> output_params" where
  "set_output_paths c s out0 =
     (case set_path_guarded c (output_dir out0) s (datablock_filename out0) of
        Inl e \<Rightarrow> (Some e, out0)
      | Inr v1 \<Rightarrow>
      (let out1 = out0\<lparr>datablock_filename := v1\<rparr>
       in case set_path_guarded c (output_dir out1) s (strong_filename out1) of
        Inl e \<Rightarrow> (Some e, out1)
      | Inr v2 \<Rightarrow>
      (let out2 = out1\<lparr>strong_filename := v2\<rparr>
       in case set_path_guarded c (output_dir out2) s (indexed_filename out2) of
        Inl e \<Rightarrow> (Some e, out2)
      | Inr v3 \<Rightarrow>
      (let out3 = out2\<lparr>indexed_filename := v3\<rparr>
       in case set_path_unguarded c (output_dir out3) s (refined_experiments_filename out3) of
        Inl e \<Rightarrow> (Some e, out3)
      | Inr v4 \<Rightarrow>
      (let out4 = out3\<lparr>refined_experiments_filename := v4\<rparr>
       in case set_path_unguarded c (output_dir out4) s (integrated_filename out4) of
        Inl e \<Rightarrow> (Some e, out4)
      | Inr v5 \<Rightarrow> (None, out4\<lparr>integrated_filename := v5\<rparr>))))))"

text \<open>Lines 317--333: the templates are resolved, the tag is stored and the datablock is
  dumped when its filename is set. Nothing here is inside a \<open>try\<close>.\<close>

definition resolve_outputs :: "('db, 'e, 'f) collaborators \<Rightarrow> string \<Rightarrow> 'db
    \<Rightarrow> ('db, 'e, 'f) processor \<Rightarrow> exn option \<times> ('db, 'e, 'f) processor" where
  "resolve_outputs c tag datablock self0 =
     (case set_output_paths c tag (outputs (self_params self0)) of
        (Some e, out') \<Rightarrow> (Some e, self0\<lparr>self_params := (self_params self0)\<lparr>outputs := out'\<rparr>\<rparr>)
      | (None, out') \<Rightarrow>
          write_if c (datablock_filename out') (\<lambda>s. DataBlockDump s datablock)
            (self0\<lparr>self_params := (self_params self0)\<lparr>outputs := out'\<rparr>,
                   self_tag := Some tag\<rparr>))"

text \<open>Lines 335--355: the four stages, each in its own \<open>try\<close>. A handler catches
  \<open>Exception\<close>, prints one line and returns; any other exception passes through. The
  method returns \<open>None\<close> in every branch, so the result here is only the exception that
  escapes, if any.\<close>

definition handler :: "string \<Rightarrow> string \<Rightarrow> exn \<Rightarrow> ('db, 'e, 'f) processor
    \<Rightarrow> exn option \<times> ('db, 'e, 'f) processor" where
  "handler phrase tag e self =
     (if is_Exception e then (None, emit (Print (print_line [phrase, tag, str_exn e])) self)
      else (Some e, self))"

definition run_stages :: "('db, 'e, 'f) collaborators \<Rightarrow> string \<Rightarrow> 'db
    \<Rightarrow> ('db, 'e, 'f) processor \<Rightarrow> exn option \<times> ('db, 'e, 'f) processor" where
  "run_stages c tag datablock self2 =
     (case find_spots c datablock self2 of
        (Inl e, self3) \<Rightarrow> handler ''Error spotfinding'' tag e self3
      | (Inr observed, self3) \<Rightarrow>
      (case index c datablock observed self3 of
        (Inl e, self4) \<Rightarrow> handler (''Couldn'' @ [CHR 0x27] @ ''t index'') tag e self4
      | (Inr (experiments, indexed), self4) \<Rightarrow>
      (case refine c experiments indexed self4 of
        (Inl e, self5) \<Rightarrow> handler ''Error refining'' tag e self5
      | (Inr experiments1, self5) \<Rightarrow>
      (case integrate c experiments1 indexed self5 of
        (Inl e, self6) \<Rightarrow> handler ''Error integrating'' tag e self6
      | (Inr integrated, self6) \<Rightarrow> (None, self6)))))"

definition process_datablock :: "('db, 'e, 'f) collaborators \<Rightarrow> string \<Rightarrow> 'db
    \<Rightarrow> ('db, 'e, 'f) processor \<Rightarrow> exn option \<times> ('db, 'e, 'f) processor" where
  "process_datablock c tag datablock self0 =
     (case resolve_outputs c tag datablock self0 of
        (Some e, self2) \<Rightarrow> (Some e, self2)
      | (None, self2) \<Rightarrow> run_stages c tag datablock self2)"

section \<open>\<open>do_work\<close> and the run configuration (\<open>Script.run\<close>, lines 247--284)\<close>

text \<open>
  Parameter objects live in a store: a list of cells, the address of an object being its
  position. A cell holds a whole parameter tree. \<open>copy.deepcopy(params)\<close> allocates a new
  cell with the same contents; a \<open>Processor\<close> holds the address of its \<open>self.params\<close> and all
  its assignments go to that cell.
\<close>

record ('db, 'e, 'f) machine =
  heap :: "params list"
  console :: "('db, 'e, 'f) event list"

definition deepcopy :: "nat \<Rightarrow> params list \<Rightarrow> nat \<times> params list" where
  "deepcopy a h = (length h, h @ [h ! a])"

text \<open>\<open>Processor(copy.deepcopy(params)).process_datablock(tag, datablock)\<close>, with \<open>params\<close>
  at address \<open>p\<close>: the processor works on the cell of the copy.\<close>

definition run_processor :: "('db, 'e, 'f) collaborators \<Rightarrow> nat \<Rightarrow> string \<Rightarrow> 'db
    \<Rightarrow> ('db, 'e, 'f) machine \<Rightarrow> exn option \<times> ('db, 'e, 'f) machine" where
  "run_processor c p tag datablock m =
     (case deepcopy p (heap m) of
        (a, h1) \<Rightarrow>
          (case process_datablock c tag datablock
                  \<lparr>self_params = h1 ! a, self_tag = None, effects = console m\<rparr> of
             (r, self') \<Rightarrow> (r, \<lparr>heap = h1[a := self_params self'], console = effects self'\<rparr>)))"

text \<open>Pre-import mode (lines 248--249): the item is a tag and a datablock.\<close>

definition do_work_pre_import :: "('db, 'e, 'f) collaborators \<Rightarrow> nat \<Rightarrow> string \<times> 'db
    \<Rightarrow> ('db, 'e, 'f) machine \<Rightarrow> exn option \<times> ('db, 'e, 'f) machine" where
  "do_work_pre_import c p item m = run_processor c p (fst item) (snd item) m"

text \<open>Deferred mode (lines 263--282): the item is a tag and a filename. \<open>update_geometry\<close>
  covers the reference detector and the manual geometry update of lines 276--280.\<close>

definition do_work_deferred :: "('db, 'e, 'f) collaborators \<Rightarrow> nat \<Rightarrow> string \<times> string
    \<Rightarrow> ('db, 'e, 'f) machine \<Rightarrow> exn option \<times> ('db, 'e, 'f) machine" where
  "do_work_deferred c p item m =
     (case item of (tag, filename) \<Rightarrow>
        (case do_import c filename of
           Inl e \<Rightarrow> (Some e, m)
         | Inr datablock \<Rightarrow>
             (case imageset_lengths c datablock of
                [] \<Rightarrow> (None, m)
              | n # others \<Rightarrow>
                  if n = 0 then (None, m)
                  else if length (n # others) > 1
                  then (Some (Abort (''Found more than one imageset in file: '' @ filename)), m)
                  else if n > 1
                  then (Some (Abort ''Found a multi-image file. Run again with pre_import=True''),
                        m)
                  else (case update_geometry c datablock of
                          Inl e \<Rightarrow> (Some e, m)
                        | Inr datablock' \<Rightarrow> run_processor c p tag datablock' m))))"

text \<open>The pool (lines 297--303). \<open>easy_mp.parallel_map\<close> belongs to another package; it is
  taken here in its single-process form, which calls \<open>func\<close> on the items in order. An
  exception raised by a call is raised again by the map and the remaining items are
  skipped.\<close>

fun parallel_map :: "('i \<Rightarrow> 's \<Rightarrow> exn option \<times> 's) \<Rightarrow> 'i list \<Rightarrow> 's \<Rightarrow> exn option \<times> 's"
  where
  "parallel_map func [] s = (None, s)"
| "parallel_map func (item # rest) s =
     (case func item s of
        (Some e, s') \<Rightarrow> (Some e, s')
      | (None, s') \<Rightarrow> parallel_map func rest s')"

section \<open>Reading results\<close>



text \<open>The files among the effects.\<close>

fun is_file :: "('db, 'e, 'f) event \<Rightarrow> bool" where
  "is_file (Print l) = False"
| "is_file (DataBlockDump s d) = True"
| "is_file (SaveReflections s t) = True"
| "is_file (ExperimentListDump s es) = True"
| "is_file (EasyPickleDump s f) = True"

definition files_written :: "('db, 'e, 'f) event list \<Rightarrow> ('db, 'e, 'f) event list" where
  "files_written evs = filter is_file evs"

text \<open>Specification of a unit that is processed against a given configuration value: a new
  processor starts from \<open>cfg\<close>, whatever the store holds, and its final parameters go to a
  new cell. The run's \<open>do_work\<close> is compared with this below.\<close>

definition process_with_config :: "('db, 'e, 'f) collaborators \<Rightarrow> params \<Rightarrow> string \<Rightarrow> 'db
    \<Rightarrow> ('db, 'e, 'f) machine \<Rightarrow> exn option \<times> ('db, 'e, 'f) machine" where
  "process_with_config c cfg tag datablock m =
     (case process_datablock c tag datablock
             \<lparr>self_params = cfg, self_tag = None, effects = console m\<rparr> of
        (r, self') \<Rightarrow> (r, \<lparr>heap = heap m @ [self_params self'], console = effects self'\<rparr>))"

definition unit_pre_import_spec :: "('db, 'e, 'f) collaborators \<Rightarrow> params \<Rightarrow> string \<times> 'db
    \<Rightarrow> ('db, 'e, 'f) machine \<Rightarrow> exn option \<times> ('db, 'e, 'f) machine" where
  "unit_pre_import_spec c cfg item m = process_with_config c cfg (fst item) (snd item) m"

definition unit_deferred_spec :: "('db, 'e, 'f) collaborators \<Rightarrow> params \<Rightarrow> string \<times> string
    \<Rightarrow> ('db, 'e, 'f) machine \<Rightarrow> exn option \<times> ('db, 'e, 'f) machine" where
  "unit_deferred_spec c cfg item m =
     (case item of (tag, filename) \<Rightarrow>
        (case do_import c filename of
           Inl e \<Rightarrow> (Some e, m)
         | Inr datablock \<Rightarrow>
             (case imageset_lengths c datablock of
                [] \<Rightarrow> (None, m)
              | n # others \<Rightarrow>
                  if n = 0 then (None, m)
                  else if length (n # others) > 1
                  then (Some (Abort (''Found more than one imageset in file: '' @ filename)), m)
                  else if n > 1
                  then (Some (Abort ''Found a multi-image file. Run again with pre_import=True''),
                        m)
                  else (case update_geometry c datablock of
                          Inl e \<Rightarrow> (Some e, m)
                        | Inr datablock' \<Rightarrow> process_with_config c cfg tag datablock' m))))"

text \<open>Specification of a sequential run: the calls are made in order and the first one that
  raises ends the run.\<close>

fun run_until_raise :: "('i \<Rightarrow> 's \<Rightarrow> exn option \<times> 's) \<Rightarrow> 'i list \<Rightarrow> 's \<Rightarrow> exn option \<times> 's"
  where
  "run_until_raise f [] s = (None, s)"
| "run_until_raise f (x # xs) s =
     (case f x s of
        (Some e, s') \<Rightarrow> (Some e, s')
      | (None, s') \<Rightarrow> run_until_raise f xs s')"

text \<open>The defaults of the output scope (lines 33--61) and of the two other parameters.\<close>

definition default_params :: params where
  "default_params =
     \<lparr>outputs = \<lparr>output_dir = ''.'',
                  datablock_filename = Some ''%s_datablock.json'',
                  strong_filename = Some ''%s_strong.pickle'',
                  indexed_filename = Some ''%s_indexed.pickle'',
                  refined_experiments_filename = Some ''%s_refined_experiments.json'',
                  integrated_filename = Some ''%s_integrated.pickle'',
                  integration_pickle = Some ''int-%d-%s.pickle''\<rparr>,
      scan_varying = False,
      detector_gain = 1\<rparr>"

section \<open>Concrete inputs\<close>

text \<open>A reflection, tables and collaborators on which the theorems below are instantiated.
  Datablocks, experiments and frames are numbers here.\<close>

text \<open>A format operator for the concrete runs: it substitutes the plain conversions
  \<open>%s\<close>, \<open>%d\<close> and \<open>%%\<close>, which is what Python does on the default templates, and fails on
  any other template.\<close>

fun str_arg :: "fmt_arg \<Rightarrow> string" where
  "str_arg (StrArg s) = s"
| "str_arg (IntArg n) = str_nat n"

definition prepend :: "string \<Rightarrow> exn + string \<Rightarrow> exn + string" where
  "prepend s r = (case r of Inl e \<Rightarrow> Inl e | Inr t \<Rightarrow> Inr (s @ t))"

fun simple_format :: "string \<Rightarrow> fmt_arg list \<Rightarrow> exn + string" where
  "simple_format [] args =
     (if args = [] then Inr []
      else Inl (Failure ''format''))"
| "simple_format [c] args =
     (if c = CHR ''%'' then Inl (Failure ''format'')
      else prepend [c] (simple_format [] args))"
| "simple_format (c # d # ds) args =
     (if c \<noteq> CHR ''%'' then prepend [c] (simple_format (d # ds) args)
      else if d = CHR ''%'' then prepend ''%'' (simple_format ds args)
      else if d = CHR ''s'' then
        (case args of
           [] \<Rightarrow> Inl (Failure ''format'')
         | a # as \<Rightarrow> prepend (str_arg a) (simple_format ds as))
      else if d = CHR ''d'' then
        (case args of
           [] \<Rightarrow> Inl (Failure ''format'')
         | StrArg s # as \<Rightarrow> Inl (Failure ''format'')
         | IntArg n # as \<Rightarrow> prepend (str_nat n) (simple_format ds as))
      else Inl (Failure ''format''))"

definition all_cols :: "string list" where
  "all_cols = [''flags'', ''miller_index'', ''id'', ''xyzobs.px.value'', ''bbox'',
               ''intensity.prf.value'', ''intensity.prf.variance'',
               ''intensity.sum.value'', ''intensity.sum.variance'',
               ''background.sum.value'', ''background.sum.variance'']"

definition spot :: reflection where
  "spot = \<lparr>flags = [Indexed, IntegratedSum, IntegratedPrf],
           miller_index = (1, 2, 3), refl_id = 0,
           xyzobs_px_value = (10, 20, 7), bbox = (8, 13, 18, 23, 6, 8),
           intensity_prf_value = 100, intensity_prf_variance = 25,
           intensity_sum_value = 110, intensity_sum_variance = 30,
           background_sum_value = 5, background_sum_variance = 2\<rparr>"

definition spots :: "reflection list \<Rightarrow> reflection_table" where
  "spots rs = \<lparr>cols = all_cols, rows = rs\<rparr>"

definition quiet :: "(nat, nat, nat) collaborators" where
  "quiet =
     \<lparr>do_import = (\<lambda>filename. Inr 0),
      imageset_lengths = (\<lambda>d. [1]),
      update_geometry = (\<lambda>d. Inr d),
      from_observations = (\<lambda>d p. Inr (spots [spot])),
      indexer_base = (\<lambda>r d p. Inr ([0], r)),
      profile_model_create = (\<lambda>p es i. Inr es),
      predict_and_match = (\<lambda>p es i. Inr (spots [spot])),
      integrator_integrate = (\<lambda>p es t. Inr t),
      construct_frame = (\<lambda>t e. Inr e),
      source_name = (\<lambda>es e. ''shot-1.cbf''),
      rmsd_log = (\<lambda>i t es. None),
      fs_write = (\<lambda>filename. None),
      format_op = simple_format,
      missing_column = (\<lambda>name. Failure name)\<rparr>"

text \<open>Collaborators whose importer finds as many frames in a file as its name has
  characters, and whose spot finder fails.\<close>

definition picky :: "(nat, nat, nat) collaborators" where
  "picky = quiet\<lparr>do_import := (\<lambda>filename. Inr (length filename)),
                  imageset_lengths := (\<lambda>d. [d]),
                  from_observations := (\<lambda>d p. Inl (Failure ''no spots''))\<rparr>"

definition fresh :: "params \<Rightarrow> (nat, nat, nat) processor" where
  "fresh p = \<lparr>self_params = p, self_tag = None, effects = []\<rparr>"

section \<open>Properties\<close>

subsection \<open>Tags\<close>

lemma length_tags_deferred: "length (tags_deferred all_paths) = length all_paths"
  by (simp add: tags_deferred_def Let_def)

text \<open>
  C1 (tag uniqueness). The loader returns one tag per unit, but the tags are not always
  distinct. In deferred mode the basename \<open>a\<close> occurs twice and is suffixed, and the suffixed
  tag of its first occurrence is the basename of the third file, which occurs once and is
  left bare. In pre-import mode the suffix is the frame index inside the image set, so two
  single-frame files with one basename both get index 0.
\<close>

theorem tags_collide:
  "tags_deferred [''a.cbf'', ''d/a.cbf'', ''a_00000.cbf'']
     = [''a_00000'', ''a_00001'', ''a_00000'']
   \<and> tags_pre_import [[[''run1/shot.cbf'']], [[''run2/shot.cbf'']]]
     = [''shot_00000'', ''shot_00000'']"
  by code_simp

subsection \<open>Rank partition\<close>

lemma mpi_loop_run:
  "0 < R \<Longrightarrow>
   mpi_loop r R f (enumerate n xs) s
     = run_until_raise f (map snd (filter (\<lambda>(i, x). (i + r) mod R = 0) (enumerate n xs))) s"
  by (induction xs arbitrary: n s) (auto split: prod.splits option.splits)

lemma run_until_raise_total:
  "(\<And>x t. fst (f x t) = None) \<Longrightarrow>
   run_until_raise f xs s = (None, foldl (\<lambda>t x. snd (f x t)) s xs)"
proof (induction xs arbitrary: s)
  case Nil
  show ?case by simp
next
  case (Cons x xs)
  obtain s' where fx: "f x s = (None, s')"
    using Cons.prems [of x s] by (cases "f x s") auto
  show ?case using Cons.IH [OF Cons.prems, of s'] fx by simp
qed

lemma dvd_diff_small:
  fixes R :: nat
  assumes "R dvd a" "R dvd b" "a \<le> b" "b - a < R"
  shows "a = b"
proof -
  have d: "R dvd b - a" using assms(2,1) by (rule dvd_diff_nat)
  have "b - a = 0"
  proof (rule ccontr)
    assume "b - a \<noteq> 0"
    then have "0 < b - a" by simp
    with d have "R \<le> b - a" by (rule dvd_imp_le)
    with assms(4) show False by simp
  qed
  with assms(3) show ?thesis by simp
qed

lemma rank_exists:
  assumes "0 < (R::nat)"
  shows "(i + (R - i mod R) mod R) mod R = 0"
proof -
  have lt: "i mod R < R" using assms by (rule mod_less_divisor)
  have "(i + (R - i mod R) mod R) mod R = (i mod R + (R - i mod R) mod R mod R) mod R"
    by (rule mod_add_eq [symmetric])
  also have "\<dots> = (i mod R + (R - i mod R) mod R) mod R"
    by (simp only: mod_mod_trivial)
  also have "\<dots> = (i mod R + (R - i mod R)) mod R"
    by (rule mod_add_right_eq)
  also have "i mod R + (R - i mod R) = R" using lt by arith
  also have "R mod R = 0" by (rule mod_self)
  finally show ?thesis .
qed

lemma unique_rank:
  assumes "0 < (R::nat)"
  shows "\<exists>!r. r < R \<and> (i + r) mod R = 0"
proof (rule ex_ex1I)
  have "(R - i mod R) mod R < R" using assms by (rule mod_less_divisor)
  with rank_exists [OF assms, of i]
  show "\<exists>r. r < R \<and> (i + r) mod R = 0" by (intro exI conjI)
next
  fix r r'
  assume a: "r < R \<and> (i + r) mod R = 0" and b: "r' < R \<and> (i + r') mod R = 0"
  from a have da: "R dvd i + r" by (simp only: mod_eq_0_iff_dvd)
  from b have db: "R dvd i + r'" by (simp only: mod_eq_0_iff_dvd)
  show "r = r'"
  proof (cases "r \<le> r'")
    case True
    have "i + r' - (i + r) < R" using b by arith
    moreover have "i + r \<le> i + r'" using True by arith
    ultimately have "i + r = i + r'" using da db by (intro dvd_diff_small)
    then show ?thesis by arith
  next
    case False
    have "i + r - (i + r') < R" using a by arith
    moreover have "i + r' \<le> i + r" using False by arith
    ultimately have "i + r' = i + r" using da db by (intro dvd_diff_small)
    then show ?thesis by arith
  qed
qed


text \<open>
  C5 (partition in distributed-process mode), as amended. With \<open>R\<close> ranks (at least one),
  the loop of rank \<open>r\<close> calls \<open>do_work\<close> on the items at the positions \<open>i\<close> with
  \<open>(i + r) mod R = 0\<close>, in increasing order, and stops at the first call that raises: the
  exception leaves the loop and the later positions of that rank are not worked on. When no
  call raises, every such position is worked on. Every position belongs to exactly one rank
  below \<open>R\<close>. The loop of a rank is a function of its own rank, the number of ranks, the
  items and its own state: nothing of another rank enters it.
\<close>

theorem mpi_loop_law:
  assumes "0 < R"
  shows "mpi_loop r R do_work (enumerate 0 items) s
           = run_until_raise do_work
               (map snd (filter (\<lambda>(i, x). (i + r) mod R = 0) (enumerate 0 items))) s
       \<and> ((\<forall>x t. fst (do_work x t) = None) \<longrightarrow>
            mpi_loop r R do_work (enumerate 0 items) s
              = (None, foldl (\<lambda>t x. snd (do_work x t)) s
                   (map snd (filter (\<lambda>(i, x). (i + r) mod R = 0) (enumerate 0 items)))))
       \<and> (\<forall>i < length items. \<exists>!r. r < R \<and> (i + r) mod R = 0)"
proof (intro conjI impI allI)
  show a: "mpi_loop r R do_work (enumerate 0 items) s
           = run_until_raise do_work
               (map snd (filter (\<lambda>(i, x). (i + r) mod R = 0) (enumerate 0 items))) s"
    by (rule mpi_loop_run [OF assms])
  assume "\<forall>x t. fst (do_work x t) = None"
  then have "\<And>x t. fst (do_work x t) = None" by blast
  from run_until_raise_total [of do_work, OF this]
  show "mpi_loop r R do_work (enumerate 0 items) s
          = (None, foldl (\<lambda>t x. snd (do_work x t)) s
               (map snd (filter (\<lambda>(i, x). (i + r) mod R = 0) (enumerate 0 items))))"
    by (simp only: a)
next
  fix i
  show "\<exists>!r. r < R \<and> (i + r) mod R = 0" by (rule unique_rank [OF assms])
qed

theorem mpi_loop_law_witness:
  "mpi_loop 1 3 (\<lambda>x t. (None, t @ [x])) (enumerate 0 ''abcdefgh'') []
     = run_until_raise (\<lambda>x t. (None, t @ [x])) ''cf'' []
   \<and> mpi_loop 1 3 (\<lambda>x t. (None, t @ [x])) (enumerate 0 ''abcdefgh'') [] = (None, ''cf'')
   \<and> (\<exists>!r. r < (3::nat) \<and> (4 + r) mod 3 = 0)"
proof -
  have f: "map snd (filter (\<lambda>(i, x). (i + 1) mod 3 = 0) (enumerate 0 ''abcdefgh'')) = ''cf''"
    by code_simp
  have a: "0 < (3::nat)" by simp
  note t = mpi_loop_law [OF a, of 1 "\<lambda>x t. (None, t @ [x])" "''abcdefgh''" "[]"]
  from t have t1: "mpi_loop 1 3 (\<lambda>x t. (None, t @ [x])) (enumerate 0 ''abcdefgh'') []
     = run_until_raise (\<lambda>x t. (None, t @ [x]))
         (map snd (filter (\<lambda>(i, x). (i + 1) mod 3 = 0) (enumerate 0 ''abcdefgh''))) []"
    by (elim conjE)
  from t have t3: "\<forall>i < length ''abcdefgh''. \<exists>!r. r < (3::nat) \<and> (i + r) mod 3 = 0"
    by (elim conjE)
  have b: "4 < length ''abcdefgh''" by simp
  note v = t3 [rule_format, OF b]
  have r: "run_until_raise (\<lambda>x t. (None, t @ [x])) ''cf'' [] = (None, ''cf'')" by simp
  from t1 have w1: "mpi_loop 1 3 (\<lambda>x t. (None, t @ [x])) (enumerate 0 ''abcdefgh'') []
     = run_until_raise (\<lambda>x t. (None, t @ [x])) ''cf'' []"
    by (simp only: f)
  from w1 r have w2: "mpi_loop 1 3 (\<lambda>x t. (None, t @ [x])) (enumerate 0 ''abcdefgh'') []
     = (None, ''cf'')"
    by (simp only:)
  from w1 w2 v show ?thesis by (intro conjI)
qed

text \<open>
  The claim as stated fails when a call raises. Rank 0 of 1 is given three files; the second
  holds two frames, so \<open>do_work\<close> raises \<open>Abort\<close> at line 274; the third file, which is at a
  position of rank 0 as well, is never worked on.
\<close>

theorem mpi_loop_stops_counterexample:
  "fst (mpi_loop 0 1 (do_work_deferred picky 0)
        (enumerate 0 [(''a'', ''a''), (''m'', ''mm''), (''c'', ''c'')])
        \<lparr>heap = [default_params], console = []\<rparr>)
     = Some (Abort ''Found a multi-image file. Run again with pre_import=True'')
   \<and> console (snd (mpi_loop 0 1 (do_work_deferred picky 0)
        (enumerate 0 [(''a'', ''a''), (''m'', ''mm''), (''c'', ''c'')])
        \<lparr>heap = [default_params], console = []\<rparr>))
     = [DataBlockDump ''./idx-a_datablock.json'' 1, Print ''Error spotfinding a no spots'']"
  by (simp add: enumerate_eq_zip do_work_deferred_def picky_def quiet_def run_processor_def
      deepcopy_def process_datablock_def resolve_outputs_def set_output_paths_def
      set_path_guarded_def set_path_unguarded_def resolve_template_def default_params_def
      path_join_def write_if_def write_file_def emit_def run_stages_def handler_def find_spots_def
      prepend_def Let_def)

subsection \<open>Spot finding\<close>






subsection \<open>Refinement\<close>

lemma write_if_cases:
  "write_if c filename ev self =
     (if truthy filename
      then (case fs_write c (the filename) of
              Some e \<Rightarrow> (Some e, self)
            | None \<Rightarrow> (None, emit (ev (the filename)) self))
      else (None, self))"
  by (cases filename) (auto simp: write_if_def write_file_def split: option.splits)



subsection \<open>Reference observations\<close>

lemma filter_all_when_none_rejected:
  "filter (\<lambda>x. \<not> P x) xs = [] \<Longrightarrow> filter P xs = xs"
  by (induction xs) (auto split: if_splits)

lemma filter_all_when_none_selected:
  "filter P xs = [] \<Longrightarrow> filter (\<lambda>x. \<not> P x) xs = xs"
  by (induction xs) (auto split: if_splits)

lemma keep_guard:
  "(if length (filter (\<lambda>r. \<not> P r) (rows t)) > 0 then select t P else t) = select t P"
  by (cases "filter (\<lambda>r. \<not> P r) (rows t) = []")
     (simp_all add: select_def filter_all_when_none_rejected)

lemma remove_guard:
  "(if length (filter P (rows t)) > 0 then select t (\<lambda>r. \<not> P r) else t)
     = select t (\<lambda>r. \<not> P r)"
  by (cases "filter P (rows t) = []")
     (simp_all add: select_def filter_all_when_none_selected)

lemma extend_guard:
  "(if length (filter P xs) > 0 then u\<lparr>rows := rows u @ filter P xs\<rparr> else u)
     = u\<lparr>rows := rows u @ filter P xs\<rparr>"
  by simp

lemma process_reference_steps:
  assumes "has_col t ''miller_index''" "has_col t ''id''"
  shows "process_reference (Some t) =
     (if length (rows (select t (get_flags [Indexed]))) = 0
      then Inl (Sorry (msg_no_indexed (length (rows (select t (get_flags [Indexed]))))))
      else if 0 < length (filter (\<lambda>r. refl_id r < 0)
                 (rows (select (select t (get_flags [Indexed]))
                               (\<lambda>r. miller_index r \<noteq> (0, 0, 0)))))
      then Inl (Sorry (msg_invalid_id (length (filter (\<lambda>r. refl_id r < 0)
                 (rows (select (select t (get_flags [Indexed]))
                               (\<lambda>r. miller_index r \<noteq> (0, 0, 0))))))))
      else Inr (Some (select (select t (get_flags [Indexed]))
                             (\<lambda>r. miller_index r \<noteq> (0, 0, 0))),
                Some ((select t (\<lambda>r. \<not> get_flags [Indexed] r))
                       \<lparr>rows := rows (select t (\<lambda>r. \<not> get_flags [Indexed] r))
                                @ filter (\<lambda>r. miller_index r = (0, 0, 0))
                                    (rows (select t (get_flags [Indexed])))\<rparr>)))"
  unfolding process_reference_def Let_def keep_guard remove_guard extend_guard
  by (simp only: assms option.case if_False not_True_eq_False)


lemma rows_select [simp]: "rows (select t P) = filter P (rows t)"
  by (simp add: select_def)

lemma process_reference_none_indexed:
  assumes "has_col t ''miller_index''" "has_col t ''id''"
      and "filter (get_flags [Indexed]) (rows t) = []"
  shows "process_reference (Some t) = Inl (Sorry (msg_no_indexed 0))"
  by (simp add: process_reference_steps [OF assms(1,2)] assms(3))



lemma integrate_reference_raises:
  assumes "process_reference (Some indexed) = Inl e"
  shows "integrate c experiments indexed self = (Inl e, self)"
  by (simp add: integrate_def assms)

lemma run_stages_integrate_raises:
  assumes "find_spots c datablock self = (Inr observed, self1)"
      and "index c datablock observed self1 = (Inr (experiments, indexed), self2)"
      and "refine c experiments indexed self2 = (Inr experiments1, self3)"
      and "integrate c experiments1 indexed self3 = (Inl e, self4)"
      and "is_Exception e"
  shows "run_stages c tag datablock self
           = (None, emit (Print (print_line [''Error integrating'', tag, str_exn e])) self4)"
  by (simp add: run_stages_def handler_def assms)

text \<open>
  C10 (no indexed observation left). When the reference table has the two required columns
  and none of its observations is flagged indexed, so that nothing is left after the
  unindexed ones are removed, \<open>process_reference\<close> raises \<open>Sorry\<close> with the message ``Invalid
  input for reference reflections. Expected > 0 indexed spots, got 0''; \<open>integrate\<close> raises
  it before any collaborator is called and without any effect, and the unit ends with the
  line ``Error integrating'', the tag and that message.
\<close>

theorem integrate_without_indexed_is_fatal:
  assumes "has_col indexed ''miller_index''" "has_col indexed ''id''"
      and "filter (get_flags [Indexed]) (rows indexed) = []"
  shows "process_reference (Some indexed) = Inl (Sorry (msg_no_indexed 0))
       \<and> integrate c experiments indexed self = (Inl (Sorry (msg_no_indexed 0)), self)
       \<and> (find_spots c datablock self0 = (Inr observed, self1)
            \<and> index c datablock observed self1 = (Inr (experiments0, indexed), self2)
            \<and> refine c experiments0 indexed self2 = (Inr experiments, self)
          \<longrightarrow> run_stages c tag datablock self0
                = (None, emit (Print (print_line [''Error integrating'', tag,
                                                   msg_no_indexed 0])) self))"
proof (intro conjI impI)
  show a: "process_reference (Some indexed) = Inl (Sorry (msg_no_indexed 0))"
    by (rule process_reference_none_indexed [OF assms])
  show b: "integrate c experiments indexed self = (Inl (Sorry (msg_no_indexed 0)), self)"
    by (rule integrate_reference_raises [OF a])
  assume "find_spots c datablock self0 = (Inr observed, self1)
            \<and> index c datablock observed self1 = (Inr (experiments0, indexed), self2)
            \<and> refine c experiments0 indexed self2 = (Inr experiments, self)"
  then show "run_stages c tag datablock self0
                = (None, emit (Print (print_line [''Error integrating'', tag,
                                                   msg_no_indexed 0])) self)"
    using run_stages_integrate_raises [of c datablock self0 observed self1 experiments0
        indexed self2 experiments self "Sorry (msg_no_indexed 0)" self tag] b
    by simp
qed

theorem integrate_without_indexed_is_fatal_witness:
  "integrate quiet [0] (spots [spot\<lparr>flags := []\<rparr>, spot\<lparr>flags := [IntegratedSum]\<rparr>])
       (fresh default_params)
     = (Inl (Sorry (msg_no_indexed 0)), fresh default_params)
   \<and> py_in ''Invalid input for reference reflections.'' (msg_no_indexed 0)
   \<and> py_in ''Expected > 0 indexed spots, got 0'' (msg_no_indexed 0)"
proof -
  let ?t = "spots [spot\<lparr>flags := []\<rparr>, spot\<lparr>flags := [IntegratedSum]\<rparr>]"
  have h1: "has_col ?t ''miller_index''" and h2: "has_col ?t ''id''"
    by (simp_all add: has_col_def spots_def all_cols_def)
  have h3: "filter (get_flags [Indexed]) (rows ?t) = []"
    by (simp add: spots_def get_flags_def)
  note t = integrate_without_indexed_is_fatal [OF h1 h2 h3, of quiet "[0]"
      "fresh default_params"]
  note a = t [THEN conjunct2, THEN conjunct1]
  have b: "py_in ''Invalid input for reference reflections.'' (msg_no_indexed 0)"
    by code_simp
  have c: "py_in ''Expected > 0 indexed spots, got 0'' (msg_no_indexed 0)"
    by code_simp
  from a b c show ?thesis by (intro conjI)
qed




subsection \<open>Stage failures\<close>


lemma fst_handler: "fst (handler phrase tag e self) = (if is_Exception e then None else Some e)"
  by (simp add: handler_def)










subsection \<open>Output filenames set to None\<close>

text \<open>
  C9 (every output is optional). The code does not do what the claim says for two of the
  six templates. With \<open>refined_experiments_filename\<close> or \<open>integrated_filename\<close> set to \<open>None\<close>,
  path resolution raises \<open>TypeError\<close> at line 324 or 326, outside every \<open>try\<close>: the unit has
  no effect at all and the exception leaves \<open>process_datablock\<close>. The three templates before
  them are tested for \<open>None\<close> first (lines 318--323), and with one of those unset the
  resolution succeeds.
\<close>

theorem none_template_raises:
  "process_datablock quiet ''img'' 0
       (fresh (default_params\<lparr>outputs := (outputs default_params)
          \<lparr>refined_experiments_filename := None\<rparr>\<rparr>))
     = (Some (TypeError (''argument of type '' @ [CHR 0x27] @ ''NoneType'' @ [CHR 0x27]
                          @ '' is not iterable'')),
        fresh (default_params\<lparr>outputs := (outputs default_params)
          \<lparr>datablock_filename := Some ''./idx-img_datablock.json'',
           strong_filename := Some ''./idx-img_strong.pickle'',
           indexed_filename := Some ''./idx-img_indexed.pickle'',
           refined_experiments_filename := None\<rparr>\<rparr>))
   \<and> fst (process_datablock quiet ''img'' 0
       (fresh (default_params\<lparr>outputs := (outputs default_params)
          \<lparr>integrated_filename := None\<rparr>\<rparr>)))
     = Some (TypeError (''argument of type '' @ [CHR 0x27] @ ''NoneType'' @ [CHR 0x27]
                         @ '' is not iterable''))
   \<and> effects (snd (process_datablock quiet ''img'' 0
       (fresh (default_params\<lparr>outputs := (outputs default_params)
          \<lparr>integrated_filename := None\<rparr>\<rparr>)))) = []
   \<and> resolve_outputs quiet ''img'' 0
       (fresh (default_params\<lparr>outputs := (outputs default_params)
          \<lparr>strong_filename := None\<rparr>\<rparr>))
     = (None,
        \<lparr>self_params = default_params\<lparr>outputs := (outputs default_params)
          \<lparr>datablock_filename := Some ''./idx-img_datablock.json'',
           strong_filename := None,
           indexed_filename := Some ''./idx-img_indexed.pickle'',
           refined_experiments_filename := Some ''./idx-img_refined_experiments.json'',
           integrated_filename := Some ''./idx-img_integrated.pickle''\<rparr>\<rparr>,
         self_tag = Some ''img'',
         effects = [DataBlockDump ''./idx-img_datablock.json'' 0]\<rparr>)"
  by (simp add: process_datablock_def resolve_outputs_def set_output_paths_def
      set_path_guarded_def set_path_unguarded_def resolve_template_def default_params_def
      path_join_def quiet_def fresh_def prepend_def write_if_def write_file_def emit_def
      Let_def)

subsection \<open>Variance checks\<close>

lemma count_pos: "(0 < length (filter P xs)) = (\<exists>x \<in> set xs. P x)"
  by (simp add: filter_empty_conv)

lemma has_col_scale_sum [simp]: "has_col (scale_sum_variance g t) k = has_col t k"
  by (simp add: has_col_def scale_sum_variance_def)

lemma background_after_scale_sum:
  "(\<exists>r \<in> set (rows (scale_sum_variance g t)). P (background_sum_variance r))
     = (\<exists>r \<in> set (rows t). P (background_sum_variance r))"
  by (simp add: scale_sum_variance_def)





lemma zeros_after_scale_sum:
  "filter (\<lambda>r. background_sum_variance r = 0) (rows (scale_sum_variance g t)) = []
     \<longleftrightarrow> filter (\<lambda>r. background_sum_variance r = 0) (rows t) = []"
  by (auto simp: scale_sum_variance_def filter_empty_conv)

lemma length_zeros_after_scale_sum:
  "length (filter (\<lambda>r. background_sum_variance r = 0) (rows (scale_sum_variance g t)))
     = length (filter (\<lambda>r. background_sum_variance r = 0) (rows t))"
  by (simp add: scale_sum_variance_def filter_map comp_def)










subsection \<open>The run configuration\<close>

lemma parallel_map_is_run: "parallel_map f xs s = run_until_raise f xs s"
  by (induction xs arbitrary: s) (auto split: prod.splits option.splits)

lemma run_until_raise_cong:
  assumes "\<And>x s. I s \<Longrightarrow> f x s = g x s"
      and "\<And>x s. I s \<Longrightarrow> I (snd (g x s))"
      and "I s"
  shows "run_until_raise f xs s = run_until_raise g xs s \<and> I (snd (run_until_raise g xs s))"
  using assms(3)
proof (induction xs arbitrary: s)
  case Nil
  then show ?case by simp
next
  case (Cons x xs)
  have e: "f x s = g x s" by (rule assms(1) [OF Cons.prems])
  have i: "I (snd (g x s))" by (rule assms(2) [OF Cons.prems])
  obtain r s' where g: "g x s = (r, s')" by (cases "g x s")
  show ?case
  proof (cases r)
    case None
    with Cons.IH [of s'] i g e show ?thesis by simp
  next
    case (Some a)
    with g e i show ?thesis by simp
  qed
qed

lemma run_processor_fresh:
  assumes "p < length (heap m)"
  shows "run_processor c p tag datablock m = process_with_config c (heap m ! p) tag datablock m"
  using assms
  by (simp add: run_processor_def deepcopy_def process_with_config_def nth_append
      split: prod.splits)

lemma process_with_config_keeps:
  assumes "p < length (heap m)"
  shows "p < length (heap (snd (process_with_config c cfg tag datablock m)))
       \<and> heap (snd (process_with_config c cfg tag datablock m)) ! p = heap m ! p"
  using assms
  by (simp add: process_with_config_def nth_append split: prod.splits)

lemma pre_import_fresh:
  assumes "p < length (heap m)"
  shows "do_work_pre_import c p item m = unit_pre_import_spec c (heap m ! p) item m"
  by (simp add: do_work_pre_import_def unit_pre_import_spec_def run_processor_fresh [OF assms])

lemma deferred_fresh:
  assumes "p < length (heap m)"
  shows "do_work_deferred c p item m = unit_deferred_spec c (heap m ! p) item m"
  by (simp add: do_work_deferred_def unit_deferred_spec_def run_processor_fresh [OF assms]
      split: prod.splits sum.splits list.splits)

lemma pre_import_spec_keeps:
  assumes "p < length (heap m)"
  shows "p < length (heap (snd (unit_pre_import_spec c cfg item m)))
       \<and> heap (snd (unit_pre_import_spec c cfg item m)) ! p = heap m ! p"
  unfolding unit_pre_import_spec_def by (rule process_with_config_keeps [OF assms])

lemma deferred_spec_keeps:
  assumes "p < length (heap m)"
  shows "p < length (heap (snd (unit_deferred_spec c cfg item m)))
       \<and> heap (snd (unit_deferred_spec c cfg item m)) ! p = heap m ! p"
  using assms process_with_config_keeps [OF assms, of c cfg]
  by (auto simp: unit_deferred_spec_def split: prod.splits sum.splits list.splits)

lemma batch_pre_import:
  fixes c :: "('db, 'e, 'f) collaborators"
  assumes "p < length (heap m)"
  shows "run_until_raise (do_work_pre_import c p) items m
           = run_until_raise (unit_pre_import_spec c (heap m ! p)) items m
       \<and> heap (snd (run_until_raise (unit_pre_import_spec c (heap m ! p)) items m)) ! p
           = heap m ! p"
proof -
  let ?I = "\<lambda>s :: ('db, 'e, 'f) machine. p < length (heap s) \<and> heap s ! p = heap m ! p"
  have "run_until_raise (do_work_pre_import c p) items m
          = run_until_raise (unit_pre_import_spec c (heap m ! p)) items m
        \<and> ?I (snd (run_until_raise (unit_pre_import_spec c (heap m ! p)) items m))"
  proof (rule run_until_raise_cong [where I = ?I])
    fix x and s :: "('db, 'e, 'f) machine" assume "?I s"
    then show "do_work_pre_import c p x s = unit_pre_import_spec c (heap m ! p) x s"
      using pre_import_fresh [of p s c x] by simp
  next
    fix x and s :: "('db, 'e, 'f) machine" assume "?I s"
    then show "?I (snd (unit_pre_import_spec c (heap m ! p) x s))"
      using pre_import_spec_keeps [of p s c "heap m ! p" x] by simp
  next
    show "?I m" using assms by simp
  qed
  then show ?thesis by blast
qed

lemma batch_deferred:
  fixes c :: "('db, 'e, 'f) collaborators"
  assumes "p < length (heap m)"
  shows "run_until_raise (do_work_deferred c p) items m
           = run_until_raise (unit_deferred_spec c (heap m ! p)) items m
       \<and> heap (snd (run_until_raise (unit_deferred_spec c (heap m ! p)) items m)) ! p
           = heap m ! p"
proof -
  let ?I = "\<lambda>s :: ('db, 'e, 'f) machine. p < length (heap s) \<and> heap s ! p = heap m ! p"
  have "run_until_raise (do_work_deferred c p) items m
          = run_until_raise (unit_deferred_spec c (heap m ! p)) items m
        \<and> ?I (snd (run_until_raise (unit_deferred_spec c (heap m ! p)) items m))"
  proof (rule run_until_raise_cong [where I = ?I])
    fix x and s :: "('db, 'e, 'f) machine" assume "?I s"
    then show "do_work_deferred c p x s = unit_deferred_spec c (heap m ! p) x s"
      using deferred_fresh [of p s c x] by simp
  next
    fix x and s :: "('db, 'e, 'f) machine" assume "?I s"
    then show "?I (snd (unit_deferred_spec c (heap m ! p) x s))"
      using deferred_spec_keeps [of p s c "heap m ! p" x] by simp
  next
    show "?I m" using assms by simp
  qed
  then show ?thesis by blast
qed

lemma index_keeps_params:
  "self_params (snd (index c datablock reflections self)) = self_params self"
  by (auto simp: index_def write_if_cases emit_def Let_def split: sum.splits prod.splits
      option.splits)

text \<open>
  C4 (configuration non-leakage). The run configuration is the cell at address \<open>p\<close> of the
  store. In both scheduling strategies and in both loading modes, the batch behaves
  exactly as if every unit were processed by a new processor that starts from the contents
  the cell had when the batch began, whatever the units before it did to their own copies
  (the filename templates are rewritten in every copy); and the cell itself is the same
  after the batch. Indexing hands the indexer a further copy with scan-varying refinement
  switched off and leaves the unit's own parameters as they were.
\<close>

theorem units_see_original_configuration:
  fixes c :: "('db, 'e, 'f) collaborators"
  assumes "p < length (heap m)"
  shows "parallel_map (do_work_pre_import c p) items m
           = parallel_map (unit_pre_import_spec c (heap m ! p)) items m
       \<and> parallel_map (do_work_deferred c p) files m
           = parallel_map (unit_deferred_spec c (heap m ! p)) files m
       \<and> (0 < R \<longrightarrow>
            mpi_loop r R (do_work_pre_import c p) (enumerate 0 items) m
              = mpi_loop r R (unit_pre_import_spec c (heap m ! p)) (enumerate 0 items) m
            \<and> mpi_loop r R (do_work_deferred c p) (enumerate 0 files) m
              = mpi_loop r R (unit_deferred_spec c (heap m ! p)) (enumerate 0 files) m)
       \<and> heap (snd (parallel_map (do_work_pre_import c p) items m)) ! p = heap m ! p
       \<and> heap (snd (parallel_map (do_work_deferred c p) files m)) ! p = heap m ! p
       \<and> (0 < R \<longrightarrow>
            heap (snd (mpi_loop r R (do_work_pre_import c p) (enumerate 0 items) m)) ! p
              = heap m ! p
            \<and> heap (snd (mpi_loop r R (do_work_deferred c p) (enumerate 0 files) m)) ! p
              = heap m ! p)
       \<and> self_params (snd (index c datablock reflections self)) = self_params self"
proof -
  note a = batch_pre_import [OF assms, of c]
  note b = batch_deferred [OF assms, of c]
  have 1: "parallel_map (do_work_pre_import c p) items m
           = parallel_map (unit_pre_import_spec c (heap m ! p)) items m"
    using a [of items] by (simp only: parallel_map_is_run)
  have 2: "parallel_map (do_work_deferred c p) files m
           = parallel_map (unit_deferred_spec c (heap m ! p)) files m"
    using b [of files] by (simp only: parallel_map_is_run)
  have 4: "heap (snd (parallel_map (do_work_pre_import c p) items m)) ! p = heap m ! p"
    using a [of items] by (simp only: parallel_map_is_run)
  have 5: "heap (snd (parallel_map (do_work_deferred c p) files m)) ! p = heap m ! p"
    using b [of files] by (simp only: parallel_map_is_run)
  have 3: "mpi_loop r R (do_work_pre_import c p) (enumerate 0 items) m
              = mpi_loop r R (unit_pre_import_spec c (heap m ! p)) (enumerate 0 items) m
            \<and> mpi_loop r R (do_work_deferred c p) (enumerate 0 files) m
              = mpi_loop r R (unit_deferred_spec c (heap m ! p)) (enumerate 0 files) m
            \<and> heap (snd (mpi_loop r R (do_work_pre_import c p) (enumerate 0 items) m)) ! p
              = heap m ! p
            \<and> heap (snd (mpi_loop r R (do_work_deferred c p) (enumerate 0 files) m)) ! p
              = heap m ! p"
    if R: "0 < R"
    using a [of "map snd (filter (\<lambda>(i, x). (i + r) mod R = 0) (enumerate 0 items))"]
          b [of "map snd (filter (\<lambda>(i, x). (i + r) mod R = 0) (enumerate 0 files))"]
    by (simp only: mpi_loop_run [OF R])
  have 6: "self_params (snd (index c datablock reflections self)) = self_params self"
    by (rule index_keeps_params)
  from 1 2 3 4 5 6 show ?thesis by blast
qed

theorem units_see_original_configuration_witness:
  "heap (snd (parallel_map (do_work_deferred picky 0) [(''a'', ''a''), (''b'', ''b'')]
       \<lparr>heap = [default_params], console = []\<rparr>)) ! 0 = default_params
   \<and> strong_filename (outputs (heap (snd (parallel_map (do_work_deferred picky 0)
       [(''a'', ''a''), (''b'', ''b'')] \<lparr>heap = [default_params], console = []\<rparr>)) ! 1))
       = Some ''./idx-a_strong.pickle''
   \<and> strong_filename (outputs (heap (snd (parallel_map (do_work_deferred picky 0)
       [(''a'', ''a''), (''b'', ''b'')] \<lparr>heap = [default_params], console = []\<rparr>)) ! 2))
       = Some ''./idx-b_strong.pickle''"
proof -
  let ?m = "\<lparr>heap = [default_params], console = []\<rparr> :: (nat, nat, nat) machine"
  have h: "0 < length (heap ?m)" by simp
  note t = units_see_original_configuration [OF h, of picky, THEN conjunct2, THEN conjunct2,
      THEN conjunct2, THEN conjunct2, THEN conjunct1, of "[(''a'', ''a''), (''b'', ''b'')]"]
  have a: "heap (snd (parallel_map (do_work_deferred picky 0) [(''a'', ''a''), (''b'', ''b'')]
       ?m)) ! 0 = default_params"
    using t by simp
  have e: "parallel_map (do_work_deferred picky 0) [(''a'', ''a''), (''b'', ''b'')] ?m
     = (None,
        \<lparr>heap = [default_params,
           default_params\<lparr>outputs := (outputs default_params)
             \<lparr>datablock_filename := Some ''./idx-a_datablock.json'',
              strong_filename := Some ''./idx-a_strong.pickle'',
              indexed_filename := Some ''./idx-a_indexed.pickle'',
              refined_experiments_filename := Some ''./idx-a_refined_experiments.json'',
              integrated_filename := Some ''./idx-a_integrated.pickle''\<rparr>\<rparr>,
           default_params\<lparr>outputs := (outputs default_params)
             \<lparr>datablock_filename := Some ''./idx-b_datablock.json'',
              strong_filename := Some ''./idx-b_strong.pickle'',
              indexed_filename := Some ''./idx-b_indexed.pickle'',
              refined_experiments_filename := Some ''./idx-b_refined_experiments.json'',
              integrated_filename := Some ''./idx-b_integrated.pickle''\<rparr>\<rparr>],
         console = [DataBlockDump ''./idx-a_datablock.json'' 1,
                    Print ''Error spotfinding a no spots'',
                    DataBlockDump ''./idx-b_datablock.json'' 1,
                    Print ''Error spotfinding b no spots'']\<rparr>)"
    by (simp add: do_work_deferred_def picky_def quiet_def run_processor_def
      deepcopy_def process_datablock_def resolve_outputs_def set_output_paths_def
      set_path_guarded_def set_path_unguarded_def resolve_template_def default_params_def
      path_join_def write_if_def write_file_def emit_def run_stages_def handler_def
      find_spots_def prepend_def Let_def)
  have b: "strong_filename (outputs (heap (snd (parallel_map (do_work_deferred picky 0)
       [(''a'', ''a''), (''b'', ''b'')] ?m)) ! 1)) = Some ''./idx-a_strong.pickle''"
    by (simp only: e) simp
  have c: "strong_filename (outputs (heap (snd (parallel_map (do_work_deferred picky 0)
       [(''a'', ''a''), (''b'', ''b'')] ?m)) ! 2)) = Some ''./idx-b_strong.pickle''"
    by (simp only: e) simp
  from a b c show ?thesis by (intro conjI)
qed

end
